theory Spec2Isabelle
  imports Main
begin

section \<open>Python library functions used by the scripts\<close>

text \<open>
  File names and label text are strings over code points below 256. The functions below
  follow the CPython definitions of the \<open>str\<close> methods, of \<open>int\<close> on a string and of
  \<open>os.path.splitext\<close>, restricted to that range.
\<close>

datatype py_error =
    ValueError string
  | FileNotFoundError "string list"
  | IsADirectoryError "string list"
  | NotADirectoryError "string list"
  | FileExistsError "string list"
  | KeyError string
  | UnboundLocalError string

definition py_isspace :: "char \<Rightarrow> bool" where
  "py_isspace c = ((of_char c :: nat) \<in> set [9, 10, 11, 12, 13, 28, 29, 30, 31, 32, 133, 160])"

definition py_strip :: "string \<Rightarrow> string" where
  "py_strip s = rev (dropWhile py_isspace (rev (dropWhile py_isspace s)))"

text \<open>\<open>str.split()\<close> without arguments: maximal runs of non-whitespace characters.\<close>

fun py_split_from :: "string \<Rightarrow> string \<Rightarrow> string list" where
  "py_split_from cur [] = (if cur = [] then [] else [cur])"
| "py_split_from cur (c # cs) =
     (if py_isspace c
      then (if cur = [] then py_split_from [] cs else cur # py_split_from [] cs)
      else py_split_from (cur @ [c]) cs)"

definition py_split :: "string \<Rightarrow> string list" where
  "py_split s = py_split_from [] s"

definition digit_val :: "char \<Rightarrow> int option" where
  "digit_val c =
     (let n = (of_char c :: nat) in if 48 \<le> n \<and> n \<le> 57 then Some (int n - 48) else None)"

text \<open>
  The digits of an integer literal: decimal digits, with single underscores allowed
  between two digits. \<open>prev\<close> tells whether the previous character was a digit.
\<close>

fun parse_digits :: "int \<Rightarrow> bool \<Rightarrow> string \<Rightarrow> int option" where
  "parse_digits acc prev [] = (if prev then Some acc else None)"
| "parse_digits acc prev (c # cs) =
     (if c = CHR ''_''
      then (if prev then parse_digits acc False cs else None)
      else (case digit_val c of
              None \<Rightarrow> None
            | Some d \<Rightarrow> parse_digits (acc * 10 + d) True cs))"

text \<open>\<open>int(s)\<close> in base 10: surrounding whitespace, an optional sign, the digits.
  \<open>None\<close> stands for the \<open>ValueError\<close> that \<open>int\<close> raises.\<close>

definition py_int :: "string \<Rightarrow> int option" where
  "py_int s =
     (case py_strip s of
        [] \<Rightarrow> None
      | c # cs \<Rightarrow>
          (if c = CHR ''-'' then map_option uminus (parse_digits 0 False cs)
           else if c = CHR ''+'' then parse_digits 0 False cs
           else parse_digits 0 False (c # cs)))"

definition py_lower_char :: "char \<Rightarrow> char" where
  "py_lower_char c =
     (let n = (of_char c :: nat)
      in if (65 \<le> n \<and> n \<le> 90) \<or> (192 \<le> n \<and> n \<le> 222 \<and> n \<noteq> 215)
         then char_of (n + 32) else c)"

definition py_lower :: "string \<Rightarrow> string" where
  "py_lower s = map py_lower_char s"

definition py_endswith :: "string \<Rightarrow> string \<Rightarrow> bool" where
  "py_endswith s suf = (length suf \<le> length s \<and> drop (length s - length suf) s = suf)"

fun rfind_from :: "char \<Rightarrow> string \<Rightarrow> int \<Rightarrow> int \<Rightarrow> int" where
  "rfind_from c [] i r = r"
| "rfind_from c (x # xs) i r = rfind_from c xs (i + 1) (if x = c then i else r)"

definition py_rfind :: "string \<Rightarrow> char \<Rightarrow> int" where
  "py_rfind s c = rfind_from c s 0 (- 1)"

text \<open>
  \<open>os.path.splitext\<close> (\<open>genericpath._splitext\<close> with separator \<open>/\<close>): the extension
  starts at the last dot of the last path component, unless only dots precede it there.
\<close>

definition splitext :: "string \<Rightarrow> string \<times> string" where
  "splitext p =
     (let sepIndex = py_rfind p (CHR ''/'');
          dotIndex = py_rfind p (CHR ''.'')
      in if dotIndex > sepIndex
            \<and> list_ex (\<lambda>c. c \<noteq> CHR ''.'')
                 (take (nat (dotIndex - (sepIndex + 1))) (drop (nat (sepIndex + 1)) p))
         then (take (nat dotIndex) p, drop (nat dotIndex) p)
         else (p, []))"

text \<open>\<open>xs.index(x)\<close> for an \<open>x\<close> that occurs in \<open>xs\<close> (the only use the scripts make).\<close>

definition py_index :: "'a list \<Rightarrow> 'a \<Rightarrow> int" where
  "py_index xs x = int (length (takeWhile (\<lambda>y. y \<noteq> x) xs))"

subsection \<open>\<open>defaultdict(int)\<close>\<close>

text \<open>A dictionary keeps its keys in insertion order: an association list.\<close>

type_synonym counts = "(string \<times> int) list"

definition dd_get :: "counts \<Rightarrow> string \<Rightarrow> int" where
  "dd_get d k = (case map_of d k of None \<Rightarrow> 0 | Some v \<Rightarrow> v)"

fun dd_set :: "counts \<Rightarrow> string \<Rightarrow> int \<Rightarrow> counts" where
  "dd_set [] k v = [(k, v)]"
| "dd_set ((k', v') # d) k v = (if k' = k then (k, v) # d else (k', v') # dd_set d k v)"

text \<open>\<open>d[k] += 1\<close>\<close>

definition dd_incr :: "counts \<Rightarrow> string \<Rightarrow> counts" where
  "dd_incr d k = dd_set d k (dd_get d k + 1)"

section \<open>The file system\<close>

text \<open>
  Paths are lists of components relative to the working directory; the file system is
  the list of its entries in directory order, so that \<open>os.listdir\<close> is a function of it.
  Text files are read with universal newlines. Every operation takes the file system
  and returns it with its result, changed or not.
\<close>

type_synonym path = "string list"

datatype node = File string | Dir

type_synonym file_system = "(path \<times> node) list"

definition fs_exists :: "file_system \<Rightarrow> path \<Rightarrow> bool" where
  "fs_exists fs p = (p = [] \<or> map_of fs p \<noteq> None)"

definition fs_isdir :: "file_system \<Rightarrow> path \<Rightarrow> bool" where
  "fs_isdir fs p = (p = [] \<or> map_of fs p = Some Dir)"

definition os_path_exists :: "path \<Rightarrow> file_system \<Rightarrow> bool \<times> file_system" where
  "os_path_exists p fs = (fs_exists fs p, fs)"

definition os_path_basename :: "path \<Rightarrow> string" where
  "os_path_basename p = (if p = [] then [] else last p)"

definition os_listdir :: "path \<Rightarrow> file_system \<Rightarrow> (py_error + string list) \<times> file_system" where
  "os_listdir p fs =
     (if fs_isdir fs p
      then (Inr (map (\<lambda>(q, n). last q) (filter (\<lambda>(q, n). q \<noteq> [] \<and> butlast q = p) fs)), fs)
      else if fs_exists fs p then (Inl (NotADirectoryError p), fs)
      else (Inl (FileNotFoundError p), fs))"

fun py_lines_from :: "string \<Rightarrow> string \<Rightarrow> string list" where
  "py_lines_from cur [] = (if cur = [] then [] else [cur])"
| "py_lines_from cur (c # cs) =
     (if c = CHR 0x0A then (cur @ [CHR 0x0A]) # py_lines_from [] cs
      else if c = CHR 0x0D
      then (case cs of
              [] \<Rightarrow> [cur @ [CHR 0x0A]]
            | c' # cs' \<Rightarrow>
                (if c' = CHR 0x0A then (cur @ [CHR 0x0A]) # py_lines_from [] cs'
                 else (cur @ [CHR 0x0A]) # py_lines_from [] cs))
      else py_lines_from (cur @ [c]) cs)"

text \<open>\<open>open(p, 'r')\<close> followed by reading all lines.\<close>

definition open_readlines :: "path \<Rightarrow> file_system \<Rightarrow> (py_error + string list) \<times> file_system" where
  "open_readlines p fs =
     (case map_of fs p of
        None \<Rightarrow> (Inl (FileNotFoundError p), fs)
      | Some Dir \<Rightarrow> (Inl (IsADirectoryError p), fs)
      | Some (File c) \<Rightarrow> (Inr (py_lines_from [] c), fs))"

fun fs_put :: "path \<Rightarrow> node \<Rightarrow> file_system \<Rightarrow> file_system" where
  "fs_put p n [] = [(p, n)]"
| "fs_put p n ((q, m) # fs) = (if q = p then (p, n) # fs else (q, m) # fs_put p n fs)"

definition is_under :: "path \<Rightarrow> path \<Rightarrow> bool" where
  "is_under root p = (take (length root) p = root)"





text \<open>\<open>shutil.copy(src, dst)\<close>: into \<open>dst\<close> when it is a directory, else onto it.\<close>

definition shutil_copy :: "path \<Rightarrow> path \<Rightarrow> file_system \<Rightarrow> py_error option \<times> file_system" where
  "shutil_copy src dst fs =
     (let dst' = (if fs_isdir fs dst then dst @ [os_path_basename src] else dst)
      in case map_of fs src of
           None \<Rightarrow> (Some (FileNotFoundError src), fs)
         | Some Dir \<Rightarrow> (Some (IsADirectoryError src), fs)
         | Some (File c) \<Rightarrow>
             (if fs_isdir fs dst' then (Some (IsADirectoryError dst'), fs)
              else if \<not> fs_isdir fs (butlast dst') then (Some (FileNotFoundError dst'), fs)
              else (None, fs_put dst' (File c) fs)))"


section \<open>Configuration and console output\<close>

definition RAW_IMAGES_DIR :: path where
  "RAW_IMAGES_DIR = [''raw_images'']"

definition CVAT_EXPORTS_BASE_DIR :: path where
  "CVAT_EXPORTS_BASE_DIR = [''cvat_exports'', ''annotations_v1'']"

definition OUTPUT_DATA_DIR :: path where
  "OUTPUT_DATA_DIR = [''data'']"

definition CLASS_NAMES :: "string list" where
  "CLASS_NAMES = [''carrot'', ''bean'', ''radish'']"

definition TARGET_INSTANCES_PER_CLASS :: int where
  "TARGET_INSTANCES_PER_CLASS = 50"

datatype split = Train | Validation

text \<open>The export subdirectory and the output subdirectory of a split.\<close>

fun cvat_labels_dir :: "split \<Rightarrow> path" where
  "cvat_labels_dir Train = CVAT_EXPORTS_BASE_DIR @ [''labels'', ''train'']"
| "cvat_labels_dir Validation = CVAT_EXPORTS_BASE_DIR @ [''labels'', ''validation'']"

fun output_split_dir :: "split \<Rightarrow> path" where
  "output_split_dir Train = OUTPUT_DATA_DIR @ [''train'']"
| "output_split_dir Validation = OUTPUT_DATA_DIR @ [''val'']"

text \<open>One constructor for each \<open>print\<close> of the two scripts, with the values it formats.\<close>

datatype msg =
    CleaningOutputDir
  | FoundImages int
  | WarnLabelsDirNotFound split
  | WarnNoImage split string
  | WarnMalformedLine string string
  | WarnClassIdOutOfBounds int string
  | ErrorProcessing string py_error
  | PreparationSummary int int
  | TotalObjectsHeader
  | ClassObjects string int int
  | SkippedImages int
  | NoImagesProcessed
  | YamlCreated
  | DatasetSaved
  | ScanningAnnotations split
  | NoTxtFilesFound split
  | WarnLabelsDirNotCounted split
  | WarnMalformedLineSkipping string string
  | ErrorReadingLabelFile string py_error
  | AnnotationSummaryHeader
  | SplitTotalObjects split int
  | NoObjectsFound split
  | OverallTotalObjects int
  | AnnotationProgressHeader
  | NeedsMore string int int
  | TargetMet string int int
  | AllTargetsMet
  | ContinueAnnotating

section \<open>The annotation counter (train/utils.py)\<close>

text \<open>
  The body of the loop over the lines of a label file (lines 108 to 117): the new
  dictionary, the increment of \<open>objects_in_file\<close> and what is printed, or the exception
  that \<open>int\<close> raises.
\<close>

definition counter_line ::
  "string \<Rightarrow> string list \<Rightarrow> counts \<Rightarrow> string \<Rightarrow> py_error + (counts \<times> int \<times> msg list)" where
  "counter_line base class_names_list counts_dict line =
     (let parts = py_split (py_strip line)
      in if length parts \<ge> 5
         then (case py_int (hd parts) of
                 None \<Rightarrow> Inl (ValueError (hd parts))
               | Some class_id \<Rightarrow>
                   (if 0 \<le> class_id \<and> class_id < int (length class_names_list)
                    then Inr (dd_incr counts_dict (class_names_list ! nat class_id), 1, [])
                    else Inr (counts_dict, 0, [WarnClassIdOutOfBounds class_id base])))
         else Inr (counts_dict, 0, [WarnMalformedLineSkipping base (py_strip line)]))"

text \<open>The loop: an exception leaves it with what the lines before have done.\<close>

fun counter_lines ::
  "string \<Rightarrow> string list \<Rightarrow> counts \<Rightarrow> int \<Rightarrow> string list
     \<Rightarrow> py_error option \<times> counts \<times> int \<times> msg list" where
  "counter_lines base names d objects_in_file [] = (None, d, objects_in_file, [])"
| "counter_lines base names d objects_in_file (line # lines) =
     (case counter_line base names d line of
        Inl e \<Rightarrow> (Some e, d, objects_in_file, [])
      | Inr (d', k, out) \<Rightarrow>
          (case counter_lines base names d' (objects_in_file + k) lines of
             (e, d'', n, out') \<Rightarrow> (e, d'', n, out @ out')))"

text \<open>Returns \<open>objects_in_file\<close>, the updated \<open>counts_dict\<close> and the output.\<close>

definition process_single_label_file ::
  "path \<Rightarrow> string list \<Rightarrow> counts \<Rightarrow> file_system \<Rightarrow> (int \<times> counts \<times> msg list) \<times> file_system" where
  "process_single_label_file file_path class_names_list counts_dict fs =
     (let base = os_path_basename file_path
      in case open_readlines file_path fs of
           (Inl e, fs1) \<Rightarrow> ((0, counts_dict, [ErrorReadingLabelFile base e]), fs1)
         | (Inr lines, fs1) \<Rightarrow>
             (case counter_lines base class_names_list counts_dict 0 lines of
                (None, d, n, out) \<Rightarrow> ((n, d, out), fs1)
              | (Some e, d, n, out) \<Rightarrow> ((n, d, out @ [ErrorReadingLabelFile base e]), fs1)))"

section \<open>The dataset preparer (src/prepare_dataset.py)\<close>

text \<open>The body of the loop over the lines of a label file (lines 138 to 147).\<close>

definition prepare_line ::
  "string \<Rightarrow> string list \<Rightarrow> counts \<Rightarrow> string \<Rightarrow> py_error + (counts \<times> msg list)" where
  "prepare_line base class_names_list total_objects_per_class_dict line =
     (let parts = py_split (py_strip line)
      in if length parts < 5
         then Inr (total_objects_per_class_dict, [WarnMalformedLine base (py_strip line)])
         else (case py_int (hd parts) of
                 None \<Rightarrow> Inl (ValueError (hd parts))
               | Some class_id \<Rightarrow>
                   (if 0 \<le> class_id \<and> class_id < int (length class_names_list)
                    then Inr (dd_incr total_objects_per_class_dict
                                (class_names_list ! nat class_id), [])
                    else Inr (total_objects_per_class_dict,
                              [WarnClassIdOutOfBounds class_id base]))))"

fun prepare_lines ::
  "string \<Rightarrow> string list \<Rightarrow> counts \<Rightarrow> string list \<Rightarrow> py_error option \<times> counts \<times> msg list" where
  "prepare_lines base names d [] = (None, d, [])"
| "prepare_lines base names d (line # lines) =
     (case prepare_line base names d line of
        Inl e \<Rightarrow> (Some e, d, [])
      | Inr (d', out) \<Rightarrow>
          (case prepare_lines base names d' lines of
             (e, d'', out') \<Rightarrow> (e, d'', out @ out')))"

text \<open>Returns whether the file was processed, the updated dictionary and the output.\<close>

definition copy_and_count_annotation ::
  "path \<Rightarrow> path \<Rightarrow> path \<Rightarrow> path \<Rightarrow> string list \<Rightarrow> counts \<Rightarrow> file_system
     \<Rightarrow> (bool \<times> counts \<times> msg list) \<times> file_system" where
  "copy_and_count_annotation raw_img_path exported_label_path target_img_dir target_lbl_dir
       class_names_list total_objects_per_class_dict fs =
     (let base = os_path_basename exported_label_path
      in case open_readlines exported_label_path fs of
           (Inl e, fs1) \<Rightarrow> ((False, total_objects_per_class_dict, [ErrorProcessing base e]), fs1)
         | (Inr lines, fs1) \<Rightarrow>
             (case prepare_lines base class_names_list total_objects_per_class_dict lines of
                (Some e, d, out) \<Rightarrow> ((False, d, out @ [ErrorProcessing base e]), fs1)
              | (None, d, out) \<Rightarrow>
                  (case shutil_copy exported_label_path (target_lbl_dir @ [base]) fs1 of
                     (Some e, fs2) \<Rightarrow> ((False, d, out @ [ErrorProcessing base e]), fs2)
                   | (None, fs2) \<Rightarrow>
                       (case shutil_copy raw_img_path
                               (target_img_dir @ [os_path_basename raw_img_path]) fs2 of
                          (Some e, fs3) \<Rightarrow> ((False, d, out @ [ErrorProcessing base e]), fs3)
                        | (None, fs3) \<Rightarrow> ((True, d, out), fs3)))))"

record counters =
  train_image_count :: int
  val_image_count :: int
  skipped_image_count :: int
  total_objects_per_class :: counts

definition initial_counters :: counters where
  "initial_counters =
     \<lparr>train_image_count = 0, val_image_count = 0, skipped_image_count = 0,
      total_objects_per_class = []\<rparr>"

fun count_image :: "split \<Rightarrow> counters \<Rightarrow> counters" where
  "count_image Train cs = cs\<lparr>train_image_count := train_image_count cs + 1\<rparr>"
| "count_image Validation cs = cs\<lparr>val_image_count := val_image_count cs + 1\<rparr>"

definition count_skipped :: "counters \<Rightarrow> counters" where
  "count_skipped cs = cs\<lparr>skipped_image_count := skipped_image_count cs + 1\<rparr>"

definition is_image_name :: "string \<Rightarrow> bool" where
  "is_image_name f =
     (let l = py_lower f
      in py_endswith l ''.jpg'' \<or> py_endswith l ''.jpeg'' \<or> py_endswith l ''.png'')"

text \<open>The set comprehension of line 32 and the dictionary comprehension of line 33 (a
  later file name replaces an earlier one with the same base name).\<close>

definition raw_images_basenames :: "string list \<Rightarrow> string set" where
  "raw_images_basenames names = set (map (\<lambda>f. fst (splitext f)) (filter is_image_name names))"

definition raw_images_paths :: "string list \<Rightarrow> string \<rightharpoonup> path" where
  "raw_images_paths names =
     map_of (rev (map (\<lambda>f. (fst (splitext f), RAW_IMAGES_DIR @ [f])) (filter is_image_name names)))"

text \<open>
  The body of the loop over the label files of a split (lines 55 to 73 for the train
  split, 79 to 97 for the validation split; the two differ in the split only).
\<close>

definition prepare_label ::
  "split \<Rightarrow> string set \<Rightarrow> (string \<rightharpoonup> path) \<Rightarrow> string \<Rightarrow> counters \<Rightarrow> file_system
     \<Rightarrow> (py_error + (counters \<times> msg list)) \<times> file_system" where
  "prepare_label sp all_raw_images_basenames raw_images_full_paths label_filename cs fs =
     (if \<not> py_endswith label_filename ''.txt'' then (Inr (cs, []), fs)
      else
        (let base_name = fst (splitext label_filename)
         in if base_name \<notin> all_raw_images_basenames
            then (Inr (count_skipped cs, [WarnNoImage sp label_filename]), fs)
            else (case raw_images_full_paths base_name of
                    None \<Rightarrow> (Inl (KeyError base_name), fs)
                  | Some raw_img_path \<Rightarrow>
                      (case copy_and_count_annotation raw_img_path
                              (cvat_labels_dir sp @ [label_filename])
                              (output_split_dir sp @ [''images''])
                              (output_split_dir sp @ [''labels''])
                              CLASS_NAMES (total_objects_per_class cs) fs of
                         ((ok, d, out), fs') \<Rightarrow>
                           (Inr ((if ok then count_image sp cs else count_skipped cs)
                                   \<lparr>total_objects_per_class := d\<rparr>, out), fs')))))"

fun prepare_labels ::
  "split \<Rightarrow> string set \<Rightarrow> (string \<rightharpoonup> path) \<Rightarrow> string list \<Rightarrow> counters \<Rightarrow> file_system
     \<Rightarrow> (py_error option \<times> counters \<times> msg list) \<times> file_system" where
  "prepare_labels sp bn fp [] cs fs = ((None, cs, []), fs)"
| "prepare_labels sp bn fp (label_filename # rest) cs fs =
     (case prepare_label sp bn fp label_filename cs fs of
        (Inl e, fs1) \<Rightarrow> ((Some e, cs, []), fs1)
      | (Inr (cs1, out), fs1) \<Rightarrow>
          (case prepare_labels sp bn fp rest cs1 fs1 of
             ((e, cs2, out'), fs2) \<Rightarrow> ((e, cs2, out @ out'), fs2)))"













section \<open>The annotation counter: the run\<close>

text \<open>The loop over the label files of a split (lines 33 to 36, or 48 to 51).\<close>

fun count_files ::
  "path \<Rightarrow> string list \<Rightarrow> counts \<Rightarrow> int \<Rightarrow> file_system
     \<Rightarrow> (int \<times> counts \<times> msg list) \<times> file_system" where
  "count_files labels_dir [] d total_objects fs = ((total_objects, d, []), fs)"
| "count_files labels_dir (label_file # rest) d total_objects fs =
     (case process_single_label_file (labels_dir @ [label_file]) CLASS_NAMES d fs of
        ((objects_in_file, d1, out), fs1) \<Rightarrow>
          (case count_files labels_dir rest d1 (total_objects + objects_in_file) fs1 of
             ((total_objects', d2, out'), fs2) \<Rightarrow> ((total_objects', d2, out @ out'), fs2)))"

text \<open>Lines 26 to 38, or 41 to 53: the total and the dictionary of a split.\<close>

definition count_split ::
  "split \<Rightarrow> file_system \<Rightarrow> ((py_error + (int \<times> counts)) \<times> msg list) \<times> file_system" where
  "count_split sp fs =
     (case os_path_exists (cvat_labels_dir sp) fs of
        (False, fs0) \<Rightarrow> ((Inr (0, []), [WarnLabelsDirNotCounted sp]), fs0)
      | (True, fs0) \<Rightarrow>
          (case os_listdir (cvat_labels_dir sp) fs0 of
             (Inl e, fs1) \<Rightarrow> ((Inl e, [ScanningAnnotations sp]), fs1)
           | (Inr names, fs1) \<Rightarrow>
               (let label_files = filter (\<lambda>f. py_endswith f ''.txt'') names
                in case count_files (cvat_labels_dir sp) label_files [] 0 fs1 of
                     ((total_objects, d, out), fs2) \<Rightarrow>
                       ((Inr (total_objects, d),
                         [ScanningAnnotations sp]
                         @ (if label_files = [] then [NoTxtFilesFound sp] else [])
                         @ out), fs2))))"

text \<open>Lines 59 to 64, or 67 to 72.\<close>

definition split_summary :: "split \<Rightarrow> int \<Rightarrow> counts \<Rightarrow> msg list" where
  "split_summary sp total_objects d =
     SplitTotalObjects sp total_objects
     # (if total_objects = 0 then [NoObjectsFound sp]
        else map (\<lambda>class_name. ClassObjects class_name (py_index CLASS_NAMES class_name)
                                (dd_get d class_name)) CLASS_NAMES)"

text \<open>Lines 78 to 80: \<open>overall_counts\<close> is bound only when some object was counted.\<close>

definition make_overall_counts :: "int \<Rightarrow> counts \<Rightarrow> counts \<Rightarrow> counts option" where
  "make_overall_counts total_objects_overall train_counts val_counts =
     (if total_objects_overall > 0
      then Some (fold (\<lambda>class_name oc.
                   dd_set oc class_name (dd_get train_counts class_name + dd_get val_counts class_name))
                 CLASS_NAMES [])
      else None)"

text \<open>The loop of lines 87 to 93, which reads \<open>overall_counts\<close>; the flag is
  \<open>all_targets_met\<close>.\<close>

fun annotation_progress ::
  "counts option \<Rightarrow> string list \<Rightarrow> bool \<Rightarrow> py_error option \<times> msg list \<times> bool" where
  "annotation_progress oc [] met = (None, [], met)"
| "annotation_progress None (class_name # rest) met =
     (Some (UnboundLocalError ''overall_counts''), [], met)"
| "annotation_progress (Some oc) (class_name # rest) met =
     (let overall_count = dd_get oc class_name
      in if overall_count < TARGET_INSTANCES_PER_CLASS
         then (case annotation_progress (Some oc) rest False of
                 (e, out, m) \<Rightarrow>
                   (e, NeedsMore class_name overall_count TARGET_INSTANCES_PER_CLASS # out, m))
         else (case annotation_progress (Some oc) rest met of
                 (e, out, m) \<Rightarrow>
                   (e, TargetMet class_name overall_count TARGET_INSTANCES_PER_CLASS # out, m)))"

definition count_annotations_per_class_in_cvat_splits ::
  "file_system \<Rightarrow> (py_error option \<times> msg list) \<times> file_system" where
  "count_annotations_per_class_in_cvat_splits fs =
     (case count_split Train fs of
        ((Inl e, out1), fs1) \<Rightarrow> ((Some e, out1), fs1)
      | ((Inr (total_train_objects, train_counts), out1), fs1) \<Rightarrow>
          (case count_split Validation fs1 of
             ((Inl e, out2), fs2) \<Rightarrow> ((Some e, out1 @ out2), fs2)
           | ((Inr (total_val_objects, val_counts), out2), fs2) \<Rightarrow>
               (let total_objects_overall = total_train_objects + total_val_objects;
                    overall_counts =
                      make_overall_counts total_objects_overall train_counts val_counts;
                    out3 = [AnnotationSummaryHeader]
                      @ split_summary Train total_train_objects train_counts
                      @ split_summary Validation total_val_objects val_counts
                      @ [OverallTotalObjects total_objects_overall]
                      @ (case overall_counts of
                           None \<Rightarrow> []
                         | Some oc \<Rightarrow>
                             map (\<lambda>class_name. ClassObjects class_name
                                    (py_index CLASS_NAMES class_name) (dd_get oc class_name))
                               CLASS_NAMES)
                      @ [AnnotationProgressHeader]
                in case annotation_progress overall_counts CLASS_NAMES True of
                     (Some e, out4, met) \<Rightarrow> ((Some e, out1 @ out2 @ out3 @ out4), fs2)
                   | (None, out4, met) \<Rightarrow>
                       ((None, out1 @ out2 @ out3 @ out4
                               @ [if met then AllTargetsMet else ContinueAnnotating]), fs2))))"

section \<open>Notions used to state the properties\<close>

text \<open>Every entry of the file system has a name and lies in a directory.\<close>

definition fs_wf :: "file_system \<Rightarrow> bool" where
  "fs_wf fs = list_all (\<lambda>(q, n). q \<noteq> [] \<and> fs_isdir fs (butlast q)) fs"

text \<open>The \<open>.txt\<close> files of a split's label directory; none when it cannot be listed.\<close>

definition txt_label_files :: "file_system \<Rightarrow> split \<Rightarrow> string list" where
  "txt_label_files fs sp =
     (case os_listdir (cvat_labels_dir sp) fs of
        (Inl e, fs') \<Rightarrow> []
      | (Inr names, fs') \<Rightarrow> filter (\<lambda>f. py_endswith f ''.txt'') names)"

text \<open>The entries that do not lie at or below \<open>root\<close>.\<close>

definition outside :: "path \<Rightarrow> file_system \<Rightarrow> file_system" where
  "outside root fs = filter (\<lambda>(q, n). \<not> is_under root q) fs"

text \<open>
  The example of the specification: one raw image and its train label file with two
  objects; no validation directory and no output directory yet.
\<close>

definition example_export :: file_system where
  "example_export =
     [([''raw_images''], Dir),
      ([''raw_images'', ''carrot_train_001.jpg''], File ''JPEG''),
      ([''cvat_exports''], Dir),
      ([''cvat_exports'', ''annotations_v1''], Dir),
      ([''cvat_exports'', ''annotations_v1'', ''labels''], Dir),
      ([''cvat_exports'', ''annotations_v1'', ''labels'', ''train''], Dir),
      ([''cvat_exports'', ''annotations_v1'', ''labels'', ''train'', ''carrot_train_001.txt''],
       File (''0 0.5 0.5 0.2 0.2'' @ [CHR 0x0A] @ ''1 0.3 0.3 0.1 0.1'' @ [CHR 0x0A])),
      ([''cvat_exports'', ''annotations_v1'', ''labels'', ''train'', ''notes.md''],
       File ''not a label file''),
      ([''cvat_exports'', ''annotations_v1'', ''labels'', ''train'', ''orphan.txt''],
       File (''2 0.1 0.1 0.1 0.1'' @ [CHR 0x0A]))]"


section \<open>Counting on one line\<close>









section \<open>A first field that is not an integer\<close>




section \<open>The two scripts count alike\<close>





section \<open>The run of the annotation counter\<close>

text \<open>
  Claim C3 fails on the code: \<open>overall_counts\<close> is bound only when some object was
  counted (line 78), and the progress loop reads it all the same (line 88). With both
  label directories missing, the run prints the totals, all zero, and then ends with
  \<open>UnboundLocalError\<close> before any target is reported.
\<close>

theorem counter_raises_without_objects:
  "count_annotations_per_class_in_cvat_splits []
   = ((Some (UnboundLocalError ''overall_counts''),
       [WarnLabelsDirNotCounted Train, WarnLabelsDirNotCounted Validation,
        AnnotationSummaryHeader, SplitTotalObjects Train 0, NoObjectsFound Train,
        SplitTotalObjects Validation 0, NoObjectsFound Validation, OverallTotalObjects 0,
        AnnotationProgressHeader]), [])"
  by code_simp

lemma open_readlines_fs: "open_readlines p fs = (r, fs') \<Longrightarrow> fs' = fs"
  by (auto simp: open_readlines_def split: option.splits node.splits)

lemma os_listdir_fs: "os_listdir p fs = (r, fs') \<Longrightarrow> fs' = fs"
  by (auto simp: os_listdir_def split: if_splits)

lemma os_path_exists_fs: "os_path_exists p fs = (r, fs') \<Longrightarrow> fs' = fs"
  by (simp add: os_path_exists_def)

lemma process_single_label_file_fs:
  "process_single_label_file p names d fs = (r, fs') \<Longrightarrow> fs' = fs"
  by (auto simp: process_single_label_file_def Let_def dest!: open_readlines_fs
           split: prod.splits sum.splits option.splits)

lemma count_files_fs: "count_files dir files d k fs = (r, fs') \<Longrightarrow> fs' = fs"
proof (induction files arbitrary: d k r fs')
  case Nil
  then show ?case by simp
next
  case (Cons f files)
  then show ?case
    by (auto split: prod.splits dest!: process_single_label_file_fs)
qed

lemma count_split_fs: "count_split sp fs = (r, fs') \<Longrightarrow> fs' = fs"
  by (auto simp: count_split_def Let_def
           dest!: os_path_exists_fs os_listdir_fs count_files_fs
           split: prod.splits sum.splits bool.splits)

text \<open>
  Claim C9. A run of the annotation counter leaves the whole file system as it found
  it, the raw images, the annotation export and the output directory included: it only
  tests paths, lists directories and reads files.
\<close>

theorem counter_leaves_disk_unchanged:
  "snd (count_annotations_per_class_in_cvat_splits fs) = fs"
proof -
  obtain r fs' where run: "count_annotations_per_class_in_cvat_splits fs = (r, fs')"
    by (cases "count_annotations_per_class_in_cvat_splits fs")
  then have "fs' = fs"
    by (auto simp: count_annotations_per_class_in_cvat_splits_def Let_def
             dest!: count_split_fs split: prod.splits sum.splits option.splits)
  with run show ?thesis by simp
qed

theorem counter_leaves_disk_unchanged_witness:
  "snd (count_annotations_per_class_in_cvat_splits
          [([''cvat_exports''], Dir), ([''cvat_exports'', ''annotations_v1''], Dir),
           ([''cvat_exports'', ''annotations_v1'', ''labels''], Dir),
           ([''cvat_exports'', ''annotations_v1'', ''labels'', ''train''], Dir),
           ([''cvat_exports'', ''annotations_v1'', ''labels'', ''train'', ''a.txt''],
            File ''0 0.5 0.5 0.2 0.2''),
           ([''data''], Dir), ([''data'', ''old.txt''], File ''x'')])
   = [([''cvat_exports''], Dir), ([''cvat_exports'', ''annotations_v1''], Dir),
      ([''cvat_exports'', ''annotations_v1'', ''labels''], Dir),
      ([''cvat_exports'', ''annotations_v1'', ''labels'', ''train''], Dir),
      ([''cvat_exports'', ''annotations_v1'', ''labels'', ''train'', ''a.txt''],
       File ''0 0.5 0.5 0.2 0.2''),
      ([''data''], Dir), ([''data'', ''old.txt''], File ''x'')]"
  by (rule counter_leaves_disk_unchanged)

section \<open>One label file in the dataset preparer\<close>

text \<open>
  Claim C8. A label file (a name ending in \<open>.txt\<close>) whose base name is not the base name
  of any raw image is left out: nothing is copied (the file system is unchanged), the
  per-class counts and the accepted-image counts are unchanged, the skipped-image counter
  grows by exactly one, one warning is printed, and the loop goes on with the next file.
\<close>

theorem label_without_image_is_skipped:
  assumes "py_endswith label_filename ''.txt''"
    and "fst (splitext label_filename) \<notin> raw_images_basenames image_names"
  shows "prepare_label sp (raw_images_basenames image_names) fp label_filename cs fs
           = (Inr (count_skipped cs, [WarnNoImage sp label_filename]), fs)
       \<and> skipped_image_count (count_skipped cs) = skipped_image_count cs + 1
       \<and> train_image_count (count_skipped cs) = train_image_count cs
       \<and> val_image_count (count_skipped cs) = val_image_count cs
       \<and> total_objects_per_class (count_skipped cs) = total_objects_per_class cs
       \<and> prepare_labels sp (raw_images_basenames image_names) fp (label_filename # rest) cs fs
           = (case prepare_labels sp (raw_images_basenames image_names) fp rest
                     (count_skipped cs) fs of
                ((e, cs2, out), fs2) \<Rightarrow> ((e, cs2, WarnNoImage sp label_filename # out), fs2))"
  using assms by (simp add: prepare_label_def count_skipped_def Let_def)

theorem label_without_image_is_skipped_witness:
  "py_endswith ''b.txt'' ''.txt''
   \<and> fst (splitext ''b.txt'') \<notin> raw_images_basenames [''a.jpg'', ''c.png'']
   \<and> prepare_labels Train (raw_images_basenames [''a.jpg'', ''c.png''])
        (raw_images_paths [''a.jpg'', ''c.png'']) [''b.txt''] initial_counters []
      = ((None, count_skipped initial_counters, [WarnNoImage Train ''b.txt'']), [])
   \<and> skipped_image_count (count_skipped initial_counters) = 1
   \<and> total_objects_per_class (count_skipped initial_counters) = []"
proof -
  have h1: "py_endswith ''b.txt'' ''.txt''" by code_simp
  have h2: "fst (splitext ''b.txt'') \<notin> raw_images_basenames [''a.jpg'', ''c.png'']"
    by code_simp
  have h3: "skipped_image_count initial_counters = 0 \<and> total_objects_per_class initial_counters = []"
    by (simp add: initial_counters_def)
  from label_without_image_is_skipped [OF h1 h2, where sp = Train
      and fp = "raw_images_paths [''a.jpg'', ''c.png'']" and cs = initial_counters
      and fs = "[]" and rest = "[]"] h1 h2 h3
  show ?thesis by simp
qed




end
